theory Spec2Isabelle
  imports Main "HOL-Library.Sublist"
begin

section \<open>Python values and built-ins used by the scripts\<close>

text \<open>
  Python strings are modelled as \<open>string\<close> (lists of characters); a character stands for
  a code point below 256. Integers are Python's unbounded integers, modelled as \<open>int\<close>.
  Exceptions are values of \<open>py_error\<close>; a computation that may raise returns
  \<open>py_error + 'a\<close> with \<open>Inl\<close> for the raised exception.
\<close>

datatype py_error =
    ValueError string
  | AttributeError string
  | TypeError
  | KeyError string
  | IndexError
  | HTTPError

text \<open>
  The value a Python function hands back when it is either a boolean or \<open>None\<close>
  (a function that falls off its end returns \<open>None\<close>).
\<close>

datatype py_value = PyBool bool | PyNone

text \<open>
  Slicing \<open>s[i:j]\<close> of a sequence of length \<open>n\<close>: a negative index counts from the end,
  and every index is then clamped into \<open>0..n\<close>; the slice is empty when the adjusted
  start is not below the adjusted stop. Slicing never raises.
\<close>

definition adjust_index :: "int \<Rightarrow> int \<Rightarrow> nat" where
  "adjust_index n i =
     (if i < 0 then (if i + n < 0 then 0 else nat (i + n))
      else if n \<le> i then nat n else nat i)"

definition py_slice :: "'a list \<Rightarrow> int \<Rightarrow> int \<Rightarrow> 'a list" where
  "py_slice xs i j =
     (let n = int (length xs); lo = adjust_index n i; hi = adjust_index n j
      in take (hi - lo) (drop lo xs))"

section \<open>Documents (blake_superfast.py)\<close>

text \<open>
  A fragment descriptor of the document JSON is a list such as
  \<open>[28, 30, 370, 4200547186]\<close>; its elements may arrive as numbers or as text.
\<close>

datatype jval = JInt int | JStr string

text \<open>A row of \<open>['documents']['rows']\<close>: the raw match record.\<close>

record row_dct =
  row_doctype :: int
  row_docid :: int
  row_title :: string
  row_fragments :: "jval list list"

text \<open>
  \<open>SuperfastDoc\<close>: the attributes are the keys of the document JSON
  (\<open>self.__dict__ = dct\<close>). The attribute \<open>text\<close> is named \<open>doc_text\<close> here.
\<close>

record superfast_doc =
  doctype :: int
  docid :: int
  title :: string
  doc_text :: string
  rows :: "row_dct list"

text \<open>\<open>SuperfastDoc.fragment\<close>: \<open>return self.text[begin:begin+length]\<close>.\<close>

definition fragment :: "'a superfast_doc_scheme \<Rightarrow> int \<Rightarrow> int \<Rightarrow> string" where
  "fragment d begin_pos len = py_slice (doc_text d) begin_pos (begin_pos + len)"

text \<open>
  \<open>str.split(sep)\<close> for a one-character separator: the text is cut at every occurrence
  of the separator, so a text with \<open>n\<close> separators gives \<open>n + 1\<close> segments (empty ones
  included). \<open>sep.join(segments)\<close> is the inverse.
\<close>

fun py_split :: "'a \<Rightarrow> 'a list \<Rightarrow> 'a list list" where
  "py_split sep [] = [[]]"
| "py_split sep (c # cs) =
     (if c = sep then [] # py_split sep cs
      else (case py_split sep cs of
              [] \<Rightarrow> [[c]]
            | s # ss \<Rightarrow> (c # s) # ss))"

fun py_join :: "'a list \<Rightarrow> 'a list list \<Rightarrow> 'a list" where
  "py_join sep [] = []"
| "py_join sep [s] = s"
| "py_join sep (s # t # ss) = s @ sep @ py_join sep (t # ss)"

text \<open>
  Unpacking a sequence into five targets (\<open>a, b, c, d, _ = xs\<close>) raises \<open>ValueError\<close>
  before anything is assigned unless the sequence has exactly five elements.
\<close>

definition unpack5 :: "'a list \<Rightarrow> py_error + ('a \<times> 'a \<times> 'a \<times> 'a \<times> 'a)" where
  "unpack5 xs =
     (case xs of
        [a, b, c, d, e] \<Rightarrow> Inr (a, b, c, d, e)
      | _ \<Rightarrow> Inl (ValueError ''wrong number of values to unpack''))"

text \<open>
  \<open>BlakeDoc\<close>: a \<open>SuperfastDoc\<close> with the attributes that \<open>parse_title\<close> sets.
  \<open>None\<close> for a subcomponent is Python's \<open>None\<close>.
\<close>

record blake_doc = superfast_doc +
  desc_id :: string
  work :: "string option"
  copy :: "string option"
  form :: "string option"
  page :: "string option"

text \<open>
  \<open>BlakeDoc.parse_title\<close>:
  \<^verbatim>\<open>
    self.desc_id = '.'.join(self.title.split('.')[:-1])
    try:
        self.work, self.copy, self.form, self.page, _ = self.title.split('.')
    except ValueError:
        self.work = None; self.copy = None; self.form = None; self.page = None
  \<close>
  \<open>xs[:-1]\<close> is \<open>butlast xs\<close>.
\<close>

definition parse_title :: "superfast_doc \<Rightarrow> blake_doc" where
  "parse_title d =
     (let desc = py_join ''.'' (butlast (py_split (CHR ''.'') (title d)))
      in (case unpack5 (py_split (CHR ''.'') (title d)) of
            Inr (w, c, f, p, _) \<Rightarrow>
              \<lparr>doctype = doctype d, docid = docid d, title = title d,
               doc_text = doc_text d, rows = rows d, desc_id = desc,
               work = Some w, copy = Some c, form = Some f, page = Some p\<rparr>
          | Inl _ \<Rightarrow>
              \<lparr>doctype = doctype d, docid = docid d, title = title d,
               doc_text = doc_text d, rows = rows d, desc_id = desc,
               work = None, copy = None, form = None, page = None\<rparr>))"

text \<open>
  The Superfastmatch API as the documents use it: \<open>api.get(['document', doctype, docid])\<close>
  returns the document JSON or raises (\<open>raise_for_status\<close>). The service itself is not
  part of the scripts, so it is a parameter of the model.
\<close>

type_synonym api = "int \<Rightarrow> int \<Rightarrow> py_error + superfast_doc"

text \<open>
  \<open>SuperfastDoc.__init__\<close>: the attributes come from \<open>dct\<close> when one is given, and from
  the API otherwise. \<open>BlakeDoc.__init__\<close> then parses the title.
\<close>

definition SuperfastDoc_init ::
    "api \<Rightarrow> int \<Rightarrow> int \<Rightarrow> superfast_doc option \<Rightarrow> py_error + superfast_doc" where
  "SuperfastDoc_init a dtype did dct =
     (case dct of Some j \<Rightarrow> Inr j | None \<Rightarrow> a dtype did)"

definition BlakeDoc_init ::
    "api \<Rightarrow> int \<Rightarrow> int \<Rightarrow> superfast_doc option \<Rightarrow> py_error + blake_doc" where
  "BlakeDoc_init a dtype did dct =
     (case SuperfastDoc_init a dtype did dct of
        Inl e \<Rightarrow> Inl e
      | Inr d \<Rightarrow> Inr (parse_title d))"

section \<open>Matches and fragments (blake_superfast.py)\<close>

text \<open>
  \<open>SuperfastDocmatch\<close>. The attribute \<open>data\<close> exists only when the match was built from
  a row; \<open>None\<close> stands for the missing attribute.
\<close>

record docmatch =
  match_api :: api
  primary_doc :: blake_doc
  matching_doc :: blake_doc
  data :: "row_dct option"

text \<open>
  \<open>SuperfastDocmatch.__init__(primary_doc, row_dct=None, match_doc=None, api=API)\<close>:
  \<^verbatim>\<open>
    if match_doc:
        self.matching_doc = match_doc
    elif row_dct:
        self.data = row_dct
        self.matching_doc = BlakeDoc(self.data['doctype'], self.data['docid'], api=self.api)
    else:
        raise ValueError("row_dct or match_doc must be supplied")
  \<close>
  A document object and a row with its keys are truthy, so the tests are tests for
  \<open>None\<close>.
\<close>

definition SuperfastDocmatch_init ::
    "api \<Rightarrow> blake_doc \<Rightarrow> row_dct option \<Rightarrow> blake_doc option \<Rightarrow> py_error + docmatch" where
  "SuperfastDocmatch_init a primary row match_doc =
     (case match_doc of
        Some d \<Rightarrow>
          Inr \<lparr>match_api = a, primary_doc = primary, matching_doc = d, data = None\<rparr>
      | None \<Rightarrow>
          (case row of
             Some r \<Rightarrow>
               (case BlakeDoc_init a (row_doctype r) (row_docid r) None of
                  Inl e \<Rightarrow> Inl e
                | Inr d \<Rightarrow>
                    Inr \<lparr>match_api = a, primary_doc = primary, matching_doc = d,
                         data = Some r\<rparr>)
           | None \<Rightarrow> Inl (ValueError ''row_dct or match_doc must be supplied'')))"

text \<open>
  The matrix relations: a dictionary from a descriptor id to the list of descriptor ids of
  the same matrix, kept as an association list in insertion order with one entry per key.
  \<open>map_of\<close> is the lookup (\<open>dict.get\<close>), \<open>dict_set\<close> the assignment \<open>d[k] = v\<close>; the
  dictionary is falsy exactly when it has no entry.
\<close>

type_synonym matrices = "(string \<times> string list) list"

fun dict_set :: "('k \<times> 'v) list \<Rightarrow> 'k \<Rightarrow> 'v \<Rightarrow> ('k \<times> 'v) list" where
  "dict_set [] k v = [(k, v)]"
| "dict_set ((k', v') # kvs) k v =
     (if k' = k then (k, v) # kvs else (k', v') # dict_set kvs k v)"

definition dict_get_default :: "('k \<times> 'v) list \<Rightarrow> 'k \<Rightarrow> 'v \<Rightarrow> 'v" where
  "dict_get_default d k dflt = (case map_of d k of None \<Rightarrow> dflt | Some v \<Rightarrow> v)"

text \<open>
  \<open>SuperfastDocmatch.excluded\<close>. The class attribute \<open>exclusions\<close> is shared by all
  matches and assigned from outside (\<open>export_fragments\<close>); it is passed explicitly here,
  \<open>None\<close> standing for an attribute that was never assigned (reading it raises
  \<open>AttributeError\<close>).
  \<^verbatim>\<open>
    if not self.exclusions:
        raise ValueError("no matrix values are present")
    if (self.matching_doc.desc_id in self.exclusions.get(self.primary_doc.desc_id, [])
        or
        self.primary_doc.desc_id in self.exclusions.get(self.matching_doc.desc_id, [])):
        return True
  \<close>
  The function has no other \<open>return\<close>: it falls off its end otherwise.
\<close>

definition excluded :: "matrices option \<Rightarrow> docmatch \<Rightarrow> py_error + py_value" where
  "excluded exclusions m =
     (case exclusions of
        None \<Rightarrow> Inl (AttributeError ''exclusions'')
      | Some ex \<Rightarrow>
          if ex = [] then Inl (ValueError ''no matrix values are present'')
          else if desc_id (matching_doc m)
                    \<in> set (dict_get_default ex (desc_id (primary_doc m)) [])
                  \<or> desc_id (primary_doc m)
                    \<in> set (dict_get_default ex (desc_id (matching_doc m)) [])
          then Inr (PyBool True)
          else Inr PyNone)"

text \<open>
  \<open>int(x)\<close> on a JSON value. A number is returned as it is. A text is parsed as Python
  parses a decimal literal: surrounding whitespace is dropped, one sign may lead, and the
  digits may be grouped by single underscores; anything else raises \<open>ValueError\<close>.
  \<open>isspace\<close> is \<open>str.isspace\<close> on the code points below 256.
\<close>

definition isspace :: "char \<Rightarrow> bool" where
  "isspace c =
     (let n = (of_char c :: nat)
      in (9 \<le> n \<and> n \<le> 13) \<or> (28 \<le> n \<and> n \<le> 32) \<or> n = 133 \<or> n = 160)"

definition py_lstrip :: "string \<Rightarrow> string" where
  "py_lstrip s = dropWhile isspace s"

definition py_rstrip :: "string \<Rightarrow> string" where
  "py_rstrip s = rev (dropWhile isspace (rev s))"

definition py_strip :: "string \<Rightarrow> string" where
  "py_strip s = py_rstrip (py_lstrip s)"

definition digit_val :: "char \<Rightarrow> nat option" where
  "digit_val c =
     (let n = (of_char c :: nat)
      in if 48 \<le> n \<and> n \<le> 57 then Some (n - 48) else None)"

fun parse_digits :: "nat \<Rightarrow> string \<Rightarrow> nat option" where
  "parse_digits acc [] = Some acc"
| "parse_digits acc (c # cs) =
     (if c = CHR ''_'' then
        (case cs of
           [] \<Rightarrow> None
         | d # ds \<Rightarrow>
             (case digit_val d of
                None \<Rightarrow> None
              | Some v \<Rightarrow> parse_digits (10 * acc + v) ds))
      else
        (case digit_val c of
           None \<Rightarrow> None
         | Some v \<Rightarrow> parse_digits (10 * acc + v) cs))"


definition parse_number :: "string \<Rightarrow> nat option" where
  "parse_number s =
     (case s of
        [] \<Rightarrow> None
      | c # cs \<Rightarrow>
          (case digit_val c of
             None \<Rightarrow> None
           | Some v \<Rightarrow> parse_digits v cs))"

definition py_int_str :: "string \<Rightarrow> py_error + int" where
  "py_int_str s =
     (case (case py_strip s of
              [] \<Rightarrow> None
            | c # cs \<Rightarrow>
                if c = CHR ''-'' then map_option (\<lambda>n. - int n) (parse_number cs)
                else if c = CHR ''+'' then map_option int (parse_number cs)
                else map_option int (parse_number (c # cs))) of
        None \<Rightarrow> Inl (ValueError ''invalid literal for int() with base 10'')
      | Some i \<Rightarrow> Inr i)"

definition py_int :: "jval \<Rightarrow> py_error + int" where
  "py_int v = (case v of JInt i \<Rightarrow> Inr i | JStr s \<Rightarrow> py_int_str s)"




text \<open>\<open>xs[i]\<close> for a literal index \<open>i \<ge> 0\<close>: \<open>IndexError\<close> out of range.\<close>

definition py_index :: "'a list \<Rightarrow> nat \<Rightarrow> py_error + 'a" where
  "py_index xs i = (if i < length xs then Inr (xs ! i) else Inl IndexError)"

text \<open>
  \<open>MatchFragment\<close>:
  \<^verbatim>\<open>
    self.doc = doc
    self.lst = fragment_list
    self.begin = int(self.lst[1])
    self.length = int(self.lst[2])
    self.text = self.doc.fragment(self.begin, self.length)
  \<close>
\<close>

record match_fragment =
  frag_doc :: blake_doc
  lst :: "jval list"
  frag_begin :: int
  frag_length :: int
  frag_text :: string

definition MatchFragment_init :: "blake_doc \<Rightarrow> jval list \<Rightarrow> py_error + match_fragment" where
  "MatchFragment_init doc fragment_list =
     (case py_index fragment_list 1 of
        Inl e \<Rightarrow> Inl e
      | Inr b \<Rightarrow>
     (case py_int b of
        Inl e \<Rightarrow> Inl e
      | Inr begin_pos \<Rightarrow>
     (case py_index fragment_list 2 of
        Inl e \<Rightarrow> Inl e
      | Inr l \<Rightarrow>
     (case py_int l of
        Inl e \<Rightarrow> Inl e
      | Inr len \<Rightarrow>
          Inr \<lparr>frag_doc = doc, lst = fragment_list, frag_begin = begin_pos,
               frag_length = len, frag_text = fragment doc begin_pos len\<rparr>))))"

text \<open>
  \<open>SuperfastDocmatch.fragments\<close>: a generator over \<open>self.data['fragments']\<close>. Reading
  \<open>self.data\<close> happens when the generator is made and raises \<open>AttributeError\<close> when the
  match has no \<open>data\<close>. The elements are made one by one as the generator is consumed, so
  each element is itself either a fragment or the exception its construction raises (which
  ends the iteration there).
\<close>

definition fragments :: "docmatch \<Rightarrow> py_error + (py_error + match_fragment) list" where
  "fragments m =
     (case data m of
        None \<Rightarrow> Inl (AttributeError ''data'')
      | Some r \<Rightarrow> Inr (map (MatchFragment_init (matching_doc m)) (row_fragments r)))"

section \<open>Matrix relations (blake_superfast.py)\<close>

text \<open>A row of the relations csv, as \<open>csv.DictReader\<close> yields it.\<close>

record relation_row =
  row_desc_id :: string
  same_matrix_ids :: string

text \<open>
  \<open>MatrixRelations.load_relations\<close>:
  \<^verbatim>\<open>
    matrices = {}
    for row in csvreader:
        if row['same_matrix_ids'] == '':
            continue
        same_matrix_ids = row['same_matrix_ids'].split(',')
        try:
            matrices[row['desc_id']] += same_matrix_ids
        except KeyError:
            matrices[row['desc_id']] = same_matrix_ids
  \<close>
\<close>

fun load_rows :: "matrices \<Rightarrow> relation_row list \<Rightarrow> matrices" where
  "load_rows ms [] = ms"
| "load_rows ms (row # rest) =
     (if same_matrix_ids row = [] then load_rows ms rest
      else (let ids = py_split (CHR '','') (same_matrix_ids row)
            in (case map_of ms (row_desc_id row) of
                  Some old \<Rightarrow> load_rows (dict_set ms (row_desc_id row) (old @ ids)) rest
                | None \<Rightarrow> load_rows (dict_set ms (row_desc_id row) ids) rest)))"

definition load_relations :: "relation_row list \<Rightarrow> matrices" where
  "load_relations csv_rows = load_rows [] csv_rows"

text \<open>\<open>x in container\<close> where the container may be \<open>None\<close>, which raises \<open>TypeError\<close>.\<close>

definition py_in :: "'a \<Rightarrow> 'a list option \<Rightarrow> py_error + bool" where
  "py_in x container =
     (case container of None \<Rightarrow> Inl TypeError | Some xs \<Rightarrow> Inr (x \<in> set xs))"

text \<open>
  \<open>MatrixRelations.same_matrix(doc, otherdoc)\<close>:
  \<^verbatim>\<open>
    try:
        if doc.desc_id in self.matrices.get(otherdoc.desc_id):
            return True
    except TypeError:
        pass
    return False
  \<close>
\<close>

definition same_matrix :: "matrices \<Rightarrow> blake_doc \<Rightarrow> blake_doc \<Rightarrow> py_error + bool" where
  "same_matrix ms doc otherdoc =
     (case py_in (desc_id doc) (map_of ms (desc_id otherdoc)) of
        Inr True \<Rightarrow> Inr True
      | Inr False \<Rightarrow> Inr False
      | Inl TypeError \<Rightarrow> Inr False
      | Inl e \<Rightarrow> Inl e)"

section \<open>Transcription text of an object (blake_xml.py)\<close>

text \<open>
  An element of the parsed tree as \<open>lxml\<close> holds it: its tag, the text before its first
  child, its children, and its tail (the text between its end tag and the next sibling).
  A missing text or tail is the empty string. Comments and processing instructions are
  not modelled.
\<close>

datatype element =
  Element (tag: string) (etext: string) (children: "element list") (tail: string)

text \<open>
  \<open>line.itertext()\<close>: the text of the element, then for each child in order the child's
  own \<open>itertext\<close> followed by the child's tail. The tail of the element itself is not
  part of it.
\<close>

fun itertext :: "element \<Rightarrow> string list" where
  "itertext (Element t x cs tx) = x # concat (map (\<lambda>c. itertext c @ [tail c]) cs)"

text \<open>
  \<^verbatim>\<open>
    for note in line.findall('.//note'):
        note.getparent().remove(note)
  \<close>
  Every \<open>note\<close> element below the line, at any depth, is taken out of its parent. In
  \<open>lxml\<close> the tail belongs to the element: \<open>remove\<close> takes the element out together with
  its tail text.
\<close>

fun remove_notes :: "element \<Rightarrow> element" where
  "remove_notes (Element t x cs tx) =
     Element t x (map remove_notes (filter (\<lambda>c. tag c \<noteq> ''note'') cs)) tx"

text \<open>
  \<^verbatim>\<open>
    for space in line.findall('space'):
        space.text = ' '
  \<close>
  \<open>findall('space')\<close> finds the children of the line with that tag.
\<close>

definition fill_spaces :: "element \<Rightarrow> element" where
  "fill_spaces line =
     Element (tag line) (etext line)
       (map (\<lambda>c. if tag c = ''space''
                 then Element (tag c) '' '' (children c) (tail c) else c)
          (children line))
       (tail line)"

text \<open>
  \<open>self.xml.xpath('phystext//l')\<close>: the \<open>l\<close> elements below the \<open>phystext\<close> children of
  the object, in document order.
\<close>

fun descendants :: "element \<Rightarrow> element list" where
  "descendants (Element t x cs tx) = concat (map (\<lambda>c. c # descendants c) cs)"

definition xpath_lines :: "element \<Rightarrow> element list" where
  "xpath_lines xml =
     concat (map (\<lambda>p. filter (\<lambda>e. tag e = ''l'') (descendants p))
               (filter (\<lambda>c. tag c = ''phystext'') (children xml)))"

text \<open>\<open>re.sub(r'\s+', ' ', text)\<close>: every maximal run of whitespace becomes one space.\<close>

function re_sub_ws :: "string \<Rightarrow> string" where
  "re_sub_ws [] = []"
| "re_sub_ws (c # cs) =
     (if isspace c then CHR '' '' # re_sub_ws (dropWhile isspace cs)
      else c # re_sub_ws cs)"
  by pat_completeness auto
termination
  by (relation "measure length") (auto simp: length_dropWhile_le less_Suc_eq_le)

text \<open>
  \<open>XMLObject.text\<close>:
  \<^verbatim>\<open>
    transcription = ''
    for line in self.xml.xpath('phystext//l'):
        (remove the notes; set the text of the space children)
        text = ''.join(line.itertext())
        if text == '':
            continue
        text = re.sub(r'\s+', ' ', text)
        text = text.strip()
        transcription += text + '\n'
    return transcription.rstrip()
  \<close>
  The lines are selected before the loop starts, and the loop changes the tree in place.
  That does not let one line's step change another line's text: when a line lies inside an
  earlier line, the earlier step has removed exactly the notes that the later step would
  remove from the inner line, and it has set the text of children of the outer line only,
  none of which lies inside the inner line. So the text of each line is the text of its
  own subtree after its notes are removed and its \<open>space\<close> children are filled.
\<close>

definition line_text :: "element \<Rightarrow> string" where
  "line_text line = concat (itertext (fill_spaces (remove_notes line)))"

fun text_loop :: "string \<Rightarrow> element list \<Rightarrow> string" where
  "text_loop transcription [] = transcription"
| "text_loop transcription (line # rest) =
     (if line_text line = [] then text_loop transcription rest
      else text_loop
             (transcription @ py_strip (re_sub_ws (line_text line)) @ [CHR 0x0A]) rest)"

definition XMLObject_text :: "element \<Rightarrow> string" where
  "XMLObject_text xml = py_rstrip (text_loop [] (xpath_lines xml))"

section \<open>Documents used in the examples\<close>

definition doc_titled :: "string \<Rightarrow> blake_doc" where
  "doc_titled t =
     parse_title \<lparr>doctype = 1, docid = 0, title = t, doc_text = [], rows = []\<rparr>"

text \<open>A service that answers every request with an error status.\<close>

definition no_service :: api where
  "no_service dtype did = Inl HTTPError"

text \<open>A service that knows the single document (1, 199).\<close>

definition one_document :: api where
  "one_document dtype did =
     (if dtype = 1 \<and> did = 199
      then Inr \<lparr>doctype = 1, docid = 199, title = ''vda.g.illbk.07.txt'',
                doc_text = ''Wave shadows dismal'', rows = []\<rparr>
      else Inl HTTPError)"

text \<open>
  Objects with one \<open>phystext\<close> and two lines: a line of two blanks and the line
  \<open>Jehovah<space/>What\<close>, in both orders; a line that holds only a note before that
  line; and one line \<open>foo<note>n</note>bar\<close>.
\<close>

definition ws_first :: element where
  "ws_first =
     Element ''desc'' [] [Element ''phystext'' []
       [Element ''l'' ''  '' [] [],
        Element ''l'' ''Jehovah'' [Element ''space'' [] [] ''What''] []] []] []"

definition ws_last :: element where
  "ws_last =
     Element ''desc'' [] [Element ''phystext'' []
       [Element ''l'' ''Jehovah'' [Element ''space'' [] [] ''What''] [],
        Element ''l'' ''  '' [] []] []] []"

definition note_only_first :: element where
  "note_only_first =
     Element ''desc'' [] [Element ''phystext'' []
       [Element ''l'' [] [Element ''note'' ''In Copy O'' [] []] [],
        Element ''l'' ''Jehovah'' [Element ''space'' [] [] ''What''] []] []] []"

definition note_with_tail :: element where
  "note_with_tail =
     Element ''desc'' [] [Element ''phystext'' []
       [Element ''l'' ''foo'' [Element ''note'' ''n'' [] ''bar''] []] []] []"

section \<open>Properties of slicing\<close>






section \<open>Titles and descriptor ids\<close>

lemma py_split_nonempty: "py_split sep s \<noteq> []"
  by (induction s) (auto split: list.splits)

lemma py_join_split: "py_join [sep] (py_split sep s) = s"
proof (induction s)
  case Nil
  show ?case by simp
next
  case (Cons c cs)
  obtain x xs where sp: "py_split sep cs = x # xs"
    using py_split_nonempty [of sep cs] by (cases "py_split sep cs") auto
  show ?case
  proof (cases "c = sep")
    case True
    then show ?thesis using Cons sp by simp
  next
    case False
    then show ?thesis using Cons sp by (cases xs) auto
  qed
qed

lemma py_split_no_sep: "seg \<in> set (py_split sep s) \<Longrightarrow> sep \<notin> set seg"
proof (induction s arbitrary: seg)
  case Nil
  then show ?case by simp
next
  case (Cons c cs)
  obtain x xs where sp: "py_split sep cs = x # xs"
    using py_split_nonempty [of sep cs] by (cases "py_split sep cs") auto
  have x: "sep \<notin> set x" and xs: "\<And>y. y \<in> set xs \<Longrightarrow> sep \<notin> set y"
    using Cons.IH sp by auto
  show ?case
  proof (cases "c = sep")
    case True
    then show ?thesis using Cons.prems sp x xs by auto
  next
    case False
    then show ?thesis using Cons.prems sp x xs by auto
  qed
qed

lemma length_py_split: "length (py_split sep s) = Suc (count_list s sep)"
proof (induction s)
  case Nil
  show ?case by simp
next
  case (Cons c cs)
  obtain x xs where sp: "py_split sep cs = x # xs"
    using py_split_nonempty [of sep cs] by (cases "py_split sep cs") auto
  show ?case using Cons sp by auto
qed

lemma py_join_snoc: "xs \<noteq> [] \<Longrightarrow> py_join sep (xs @ [y]) = py_join sep xs @ sep @ y"
  by (induction sep xs rule: py_join.induct) auto

lemma py_split_single: "sep \<notin> set s \<Longrightarrow> py_split sep s = [s]"
  by (induction s) auto

lemma count_list_pos: "x \<in> set s \<Longrightarrow> 0 < count_list s x"
  by (induction s) auto

lemma title_decomposition:
  assumes "sep \<in> set s"
  shows "s = py_join [sep] (butlast (py_split sep s)) @ [sep] @ last (py_split sep s)"
proof -
  let ?segs = "py_split sep s"
  have "2 \<le> length ?segs"
    using count_list_pos [OF assms] by (simp add: length_py_split)
  then have bl: "butlast ?segs \<noteq> []"
    by (cases ?segs rule: rev_cases) auto
  have "?segs = butlast ?segs @ [last ?segs]"
    using py_split_nonempty [of sep s] by simp
  then have "py_join [sep] ?segs = py_join [sep] (butlast ?segs) @ [sep] @ last ?segs"
    using py_join_snoc [OF bl, of "[sep]" "last ?segs"] by simp
  then show ?thesis by (simp add: py_join_split)
qed

lemma desc_id_parse_title:
  "desc_id (parse_title d) = py_join ''.'' (butlast (py_split (CHR ''.'') (title d)))"
  by (simp add: parse_title_def Let_def split: sum.splits prod.splits)

lemma unpack5_five:
  "length xs = 5 \<Longrightarrow> unpack5 xs = Inr (xs ! 0, xs ! 1, xs ! 2, xs ! 3, xs ! 4)"
  by (auto simp: unpack5_def split: list.splits)

lemma unpack5_other: "length xs \<noteq> 5 \<Longrightarrow> \<exists>e. unpack5 xs = Inl e"
  by (auto simp: unpack5_def split: list.splits)

text \<open>
  C6. For every title, the descriptor id is the title without its last dot-delimited
  segment: it is the segments but the last joined by dots, so a title with a dot is the
  descriptor id, a dot and the dot-free last segment, and a title without a dot has the
  empty descriptor id. Exactly when the title has five segments, \<open>work\<close>, \<open>copy\<close>,
  \<open>form\<close> and \<open>page\<close> are the first four segments in this order; for any other number of
  segments all four are \<open>None\<close>.
\<close>

theorem parse_title_correct:
  "desc_id (parse_title d) = py_join ''.'' (butlast (py_split (CHR ''.'') (title d)))
   \<and> (CHR ''.'' \<in> set (title d) \<longrightarrow>
        title d = desc_id (parse_title d) @ ''.'' @ last (py_split (CHR ''.'') (title d))
        \<and> CHR ''.'' \<notin> set (last (py_split (CHR ''.'') (title d))))
   \<and> (CHR ''.'' \<notin> set (title d) \<longrightarrow> desc_id (parse_title d) = [])
   \<and> (length (py_split (CHR ''.'') (title d)) = 5 \<longrightarrow>
        work (parse_title d) = Some (py_split (CHR ''.'') (title d) ! 0)
        \<and> copy (parse_title d) = Some (py_split (CHR ''.'') (title d) ! 1)
        \<and> form (parse_title d) = Some (py_split (CHR ''.'') (title d) ! 2)
        \<and> page (parse_title d) = Some (py_split (CHR ''.'') (title d) ! 3))
   \<and> (length (py_split (CHR ''.'') (title d)) \<noteq> 5 \<longrightarrow>
        work (parse_title d) = None \<and> copy (parse_title d) = None
        \<and> form (parse_title d) = None \<and> page (parse_title d) = None)"
proof -
  let ?segs = "py_split (CHR ''.'') (title d)"
  have a: "desc_id (parse_title d) = py_join ''.'' (butlast ?segs)"
    by (rule desc_id_parse_title)
  have b: "title d = desc_id (parse_title d) @ ''.'' @ last ?segs
           \<and> CHR ''.'' \<notin> set (last ?segs)" if "CHR ''.'' \<in> set (title d)"
    using title_decomposition [OF that] py_split_no_sep [of "last ?segs" "CHR ''.''" "title d"]
      py_split_nonempty [of "CHR ''.''" "title d"]
    by (simp add: a)
  have c: "desc_id (parse_title d) = []" if "CHR ''.'' \<notin> set (title d)"
    using that by (simp add: a py_split_single)
  have e: "work (parse_title d) = Some (?segs ! 0) \<and> copy (parse_title d) = Some (?segs ! 1)
        \<and> form (parse_title d) = Some (?segs ! 2) \<and> page (parse_title d) = Some (?segs ! 3)"
    if "length ?segs = 5"
    using unpack5_five [OF that] by (simp add: parse_title_def Let_def)
  have f: "work (parse_title d) = None \<and> copy (parse_title d) = None
        \<and> form (parse_title d) = None \<and> page (parse_title d) = None"
    if "length ?segs \<noteq> 5"
    using unpack5_other [OF that] by (auto simp: parse_title_def Let_def)
  show ?thesis using a b c e f by blast
qed

theorem parse_title_correct_witness:
  "CHR ''.'' \<in> set ''vda.h.illbk.07.txt''
   \<and> length (py_split (CHR ''.'') ''vda.h.illbk.07.txt'') = 5
   \<and> desc_id (doc_titled ''vda.h.illbk.07.txt'') = ''vda.h.illbk.07''
   \<and> work (doc_titled ''vda.h.illbk.07.txt'') = Some ''vda''
   \<and> copy (doc_titled ''vda.h.illbk.07.txt'') = Some ''h''
   \<and> form (doc_titled ''vda.h.illbk.07.txt'') = Some ''illbk''
   \<and> page (doc_titled ''vda.h.illbk.07.txt'') = Some ''07''
   \<and> length (py_split (CHR ''.'') ''but518.wc.01.txt'') \<noteq> 5
   \<and> desc_id (doc_titled ''but518.wc.01.txt'') = ''but518.wc.01''
   \<and> work (doc_titled ''but518.wc.01.txt'') = None
   \<and> copy (doc_titled ''but518.wc.01.txt'') = None
   \<and> form (doc_titled ''but518.wc.01.txt'') = None
   \<and> page (doc_titled ''but518.wc.01.txt'') = None"
proof -
  let ?long = "\<lparr>doctype = 1, docid = 0, title = ''vda.h.illbk.07.txt'',
                 doc_text = [], rows = []\<rparr>"
  let ?short = "\<lparr>doctype = 1, docid = 0, title = ''but518.wc.01.txt'',
                 doc_text = [], rows = []\<rparr>"
  have segs: "py_split (CHR ''.'') (title ?long) = [''vda'', ''h'', ''illbk'', ''07'', ''txt'']"
    by simp
  have segs': "py_split (CHR ''.'') (title ?short) = [''but518'', ''wc'', ''01'', ''txt'']"
    by simp
  note long = parse_title_correct [of ?long]
  note short = parse_title_correct [of ?short]
  have d: "desc_id (parse_title ?long) = ''vda.h.illbk.07''"
    using long [THEN conjunct1] by (simp only: segs) simp
  have w: "work (parse_title ?long) = Some ''vda'' \<and> copy (parse_title ?long) = Some ''h''
        \<and> form (parse_title ?long) = Some ''illbk'' \<and> page (parse_title ?long) = Some ''07''"
    using long [THEN conjunct2, THEN conjunct2, THEN conjunct2, THEN conjunct1]
    by (simp only: segs) simp
  have d': "desc_id (parse_title ?short) = ''but518.wc.01''"
    using short [THEN conjunct1] by (simp only: segs') simp
  have w': "work (parse_title ?short) = None \<and> copy (parse_title ?short) = None
        \<and> form (parse_title ?short) = None \<and> page (parse_title ?short) = None"
    using short [THEN conjunct2, THEN conjunct2, THEN conjunct2, THEN conjunct2]
    by (simp only: segs') simp
  show ?thesis
    using d w d' w' segs segs' by (simp add: doc_titled_def)
qed

section \<open>Matrix relations and exclusion\<close>

lemma same_matrix_lookup:
  "same_matrix ms a b =
     Inr (case map_of ms (desc_id b) of None \<Rightarrow> False | Some ids \<Rightarrow> desc_id a \<in> set ids)"
  by (simp add: same_matrix_def py_in_def split: option.splits bool.splits)

lemma desc_id_a: "desc_id (doc_titled ''a.txt'') = ''a''"
  by (simp add: doc_titled_def desc_id_parse_title)

lemma desc_id_b: "desc_id (doc_titled ''b.txt'') = ''b''"
  by (simp add: doc_titled_def desc_id_parse_title)

lemma desc_id_c: "desc_id (doc_titled ''c.txt'') = ''c''"
  by (simp add: doc_titled_def desc_id_parse_title)

lemma load_a_bc:
  "load_relations [\<lparr>row_desc_id = ''a'', same_matrix_ids = ''b,c''\<rparr>] = [(''a'', [''b'', ''c''])]"
  by (simp add: load_relations_def)

text \<open>
  C1. \<open>same_matrix(doc, otherdoc)\<close> looks only into the list stored for \<open>otherdoc\<close>. With
  the single row \<open>desc_id = a, same_matrix_ids = b,c\<close> loaded, \<open>same_matrix(a, b)\<close> looks
  for \<open>a\<close> in the missing entry of \<open>b\<close> and returns \<open>False\<close>, while \<open>same_matrix(b, a)\<close>
  finds \<open>b\<close> in the entry of \<open>a\<close> and returns \<open>True\<close>: the query is not symmetric, and
  it is not the disjunction of the two directions.
\<close>

theorem same_matrix_one_direction:
  "same_matrix (load_relations [\<lparr>row_desc_id = ''a'', same_matrix_ids = ''b,c''\<rparr>])
     (doc_titled ''a.txt'') (doc_titled ''b.txt'') = Inr False
   \<and> same_matrix (load_relations [\<lparr>row_desc_id = ''a'', same_matrix_ids = ''b,c''\<rparr>])
     (doc_titled ''b.txt'') (doc_titled ''a.txt'') = Inr True"
  by (simp add: same_matrix_lookup load_a_bc desc_id_a desc_id_b)

text \<open>
  C3, as the claim states it, fails: with an index attached that has no entry (a
  relations file without any same-matrix ids) \<open>excluded()\<close> raises \<open>ValueError\<close> instead
  of returning, and with the index \<open>a \<mapsto> [b, c]\<close> the match of \<open>b\<close> with \<open>c\<close>, related
  in neither direction, returns \<open>None\<close>.
\<close>

theorem excluded_not_boolean_counterexample:
  "excluded (Some (load_relations []))
     \<lparr>match_api = no_service, primary_doc = doc_titled ''a.txt'',
      matching_doc = doc_titled ''b.txt'', data = None\<rparr>
     = Inl (ValueError ''no matrix values are present'')
   \<and> excluded (Some (load_relations [\<lparr>row_desc_id = ''a'', same_matrix_ids = ''b,c''\<rparr>]))
     \<lparr>match_api = no_service, primary_doc = doc_titled ''b.txt'',
      matching_doc = doc_titled ''c.txt'', data = None\<rparr>
     = Inr PyNone"
  by (simp add: excluded_def load_a_bc load_relations_def dict_get_default_def
      desc_id_b desc_id_c)

text \<open>
  C3, amended. For every match and every attached index with at least one entry,
  \<open>excluded()\<close> returns without raising, and it returns \<open>True\<close> if and only if the index
  lists the counterpart's descriptor id in the primary's entry or the primary's
  descriptor id in the counterpart's entry. With an attached index that has no entry it
  raises \<open>ValueError\<close>.
\<close>

theorem excluded_true_iff:
  assumes "ex \<noteq> []"
  shows "(excluded (Some ex) m = Inr (PyBool True) \<longleftrightarrow>
            (\<exists>ids. map_of ex (desc_id (primary_doc m)) = Some ids
                 \<and> desc_id (matching_doc m) \<in> set ids)
          \<or> (\<exists>ids. map_of ex (desc_id (matching_doc m)) = Some ids
                 \<and> desc_id (primary_doc m) \<in> set ids))
       \<and> (\<exists>r. excluded (Some ex) m = Inr r)
       \<and> excluded (Some []) m = Inl (ValueError ''no matrix values are present'')"
  using assms
  by (auto simp: excluded_def dict_get_default_def split: option.splits)

theorem excluded_true_iff_witness:
  "[(''a'', [''b'', ''c''])] \<noteq> ([] :: matrices)
   \<and> excluded (Some [(''a'', [''b'', ''c''])])
     \<lparr>match_api = no_service, primary_doc = doc_titled ''b.txt'',
      matching_doc = doc_titled ''a.txt'', data = None\<rparr> = Inr (PyBool True)"
  using excluded_true_iff [of "[(''a'', [''b'', ''c''])]"
      "\<lparr>match_api = no_service, primary_doc = doc_titled ''b.txt'',
      matching_doc = doc_titled ''a.txt'', data = None\<rparr>"]
  by (simp add: desc_id_a desc_id_b)

text \<open>
  C4. For every match, while no exclusion index has been attached (the shared attribute
  was never assigned), \<open>excluded()\<close> raises an error (the \<open>AttributeError\<close> of reading
  the attribute) and returns nothing, so "not computed" cannot be taken for a computed
  \<open>False\<close>. An assigned index without entries is refused in the same way, by the
  \<open>ValueError\<close> of the guard.
\<close>

theorem excluded_unattached:
  "excluded None m = Inl (AttributeError ''exclusions'')
   \<and> (\<forall>r. excluded None m \<noteq> Inr r)
   \<and> excluded (Some []) m = Inl (ValueError ''no matrix values are present'')
   \<and> (\<forall>r. excluded (Some []) m \<noteq> Inr r)"
  by (simp add: excluded_def)

section \<open>Constructing a match\<close>

text \<open>
  C5, as the claim states it, fails: with a raw record as the only argument the
  counterpart is fetched from the service, and when the service answers with an error
  the construction raises that error.
\<close>

theorem docmatch_init_lookup_fails_counterexample:
  "SuperfastDocmatch_init no_service (doc_titled ''vda.h.illbk.07.txt'')
     (Some \<lparr>row_doctype = 1, row_docid = 199, row_title = ''vda.g.illbk.07.txt'',
            row_fragments = [[JInt 28, JInt 30, JInt 370, JInt 4200547186]]\<rparr>)
     None = Inl HTTPError"
  by (simp add: SuperfastDocmatch_init_def BlakeDoc_init_def SuperfastDoc_init_def
      no_service_def)

text \<open>
  C5, amended. With neither a raw record nor a counterpart document, construction raises
  \<open>ValueError\<close>. With a counterpart document alone it succeeds. With a raw record alone
  it succeeds when the service returns the document of the record's doctype and docid
  (the counterpart is that document with its title parsed, and the record is stored), and
  it raises the service's error when the lookup fails.
\<close>

theorem docmatch_init_one_of:
  "SuperfastDocmatch_init a p None None
     = Inl (ValueError ''row_dct or match_doc must be supplied'')
   \<and> SuperfastDocmatch_init a p None (Some d)
     = Inr \<lparr>match_api = a, primary_doc = p, matching_doc = d, data = None\<rparr>
   \<and> (\<forall>j. a (row_doctype r) (row_docid r) = Inr j \<longrightarrow>
        SuperfastDocmatch_init a p (Some r) None
          = Inr \<lparr>match_api = a, primary_doc = p, matching_doc = parse_title j,
                 data = Some r\<rparr>)
   \<and> (\<forall>e. a (row_doctype r) (row_docid r) = Inl e \<longrightarrow>
        SuperfastDocmatch_init a p (Some r) None = Inl e)"
  by (simp add: SuperfastDocmatch_init_def BlakeDoc_init_def SuperfastDoc_init_def)

theorem docmatch_init_one_of_witness:
  "one_document 1 199 = Inr \<lparr>doctype = 1, docid = 199, title = ''vda.g.illbk.07.txt'',
                doc_text = ''Wave shadows dismal'', rows = []\<rparr>
   \<and> SuperfastDocmatch_init one_document (doc_titled ''vda.h.illbk.07.txt'')
       (Some \<lparr>row_doctype = 1, row_docid = 199, row_title = ''vda.g.illbk.07.txt'',
            row_fragments = []\<rparr>) None
     = Inr \<lparr>match_api = one_document, primary_doc = doc_titled ''vda.h.illbk.07.txt'',
            matching_doc = parse_title \<lparr>doctype = 1, docid = 199,
              title = ''vda.g.illbk.07.txt'', doc_text = ''Wave shadows dismal'', rows = []\<rparr>,
            data = Some \<lparr>row_doctype = 1, row_docid = 199,
              row_title = ''vda.g.illbk.07.txt'', row_fragments = []\<rparr>\<rparr>
   \<and> no_service 1 199 = Inl HTTPError
   \<and> SuperfastDocmatch_init no_service (doc_titled ''vda.h.illbk.07.txt'')
       (Some \<lparr>row_doctype = 1, row_docid = 199, row_title = ''vda.g.illbk.07.txt'',
            row_fragments = []\<rparr>) None = Inl HTTPError"
  using docmatch_init_one_of [of one_document "doc_titled ''vda.h.illbk.07.txt''" _
      "\<lparr>row_doctype = 1, row_docid = 199, row_title = ''vda.g.illbk.07.txt'',
            row_fragments = []\<rparr>"]
    docmatch_init_one_of [of no_service "doc_titled ''vda.h.illbk.07.txt''" _
      "\<lparr>row_doctype = 1, row_docid = 199, row_title = ''vda.g.illbk.07.txt'',
            row_fragments = []\<rparr>"]
  by (simp add: one_document_def no_service_def)

text \<open>
  C10. With both a raw record and a counterpart document, construction succeeds, the
  counterpart is the supplied document, and the record plays no part: the match is the
  one built from the document alone, it has no \<open>data\<close>, and \<open>fragments()\<close> on it raises
  \<open>AttributeError\<close> for want of a descriptor list.
\<close>

theorem docmatch_init_both:
  "SuperfastDocmatch_init a p (Some r) (Some d)
     = Inr \<lparr>match_api = a, primary_doc = p, matching_doc = d, data = None\<rparr>
   \<and> SuperfastDocmatch_init a p (Some r) (Some d) = SuperfastDocmatch_init a p None (Some d)
   \<and> fragments \<lparr>match_api = a, primary_doc = p, matching_doc = d, data = None\<rparr>
       = Inl (AttributeError ''data'')"
  by (simp add: SuperfastDocmatch_init_def fragments_def)

section \<open>Fragments of a match\<close>
























section \<open>Transcription text\<close>

lemma re_sub_ws_run:
  assumes "run \<noteq> []" "\<And>c. c \<in> set run \<Longrightarrow> isspace c" "rest = [] \<or> \<not> isspace (hd rest)"
  shows "re_sub_ws (run @ rest) = CHR '' '' # re_sub_ws rest"
proof -
  obtain c cs where run: "run = c # cs"
    using assms(1) by (cases run) auto
  have "dropWhile isspace (cs @ rest) = dropWhile isspace rest"
    using assms(2) run by (intro dropWhile_append2) simp
  also have "\<dots> = rest"
    using assms(3) by (cases rest) auto
  finally show ?thesis
    using assms(2) [of c] by (simp add: run)
qed

lemma py_rstrip_core:
  assumes "\<And>c. c \<in> set b \<Longrightarrow> isspace c" "core = [] \<or> \<not> isspace (last core)"
  shows "py_rstrip (core @ b) = core"
proof -
  have "dropWhile isspace (rev b @ rev core) = dropWhile isspace (rev core)"
    using assms(1) by (intro dropWhile_append2) simp
  also have "\<dots> = rev core"
    using assms(2) by (cases core rule: rev_cases) auto
  finally show ?thesis by (simp add: py_rstrip_def)
qed

lemma py_strip_core:
  assumes "\<And>c. c \<in> set a \<Longrightarrow> isspace c" "\<And>c. c \<in> set b \<Longrightarrow> isspace c"
    "core = [] \<or> (\<not> isspace (hd core) \<and> \<not> isspace (last core))"
  shows "py_strip (a @ core @ b) = core"
proof (cases core)
  case Nil
  have "\<forall>c\<in>set (a @ b). isspace c"
    using assms(1,2) by auto
  then have "dropWhile isspace (a @ b) = []"
    by (simp only: dropWhile_eq_Nil_conv)
  then have "py_lstrip (a @ core @ b) = []"
    by (simp only: Nil py_lstrip_def append_Nil)
  then show ?thesis
    by (simp only: py_strip_def py_rstrip_def Nil) simp
next
  case (Cons x xs)
  have "dropWhile isspace (a @ core @ b) = dropWhile isspace (core @ b)"
    using assms(1) by (intro dropWhile_append2) simp
  also have "\<dots> = core @ b"
    using assms(3) Cons by simp
  finally have "py_lstrip (a @ core @ b) = core @ b"
    by (simp add: py_lstrip_def)
  moreover have "py_rstrip (core @ b) = core"
    using assms(2,3) by (intro py_rstrip_core) auto
  ultimately show ?thesis
    by (simp add: py_strip_def)
qed

lemma py_rstrip_no_trailing: "py_rstrip s = [] \<or> \<not> isspace (last (py_rstrip s))"
proof (cases "dropWhile isspace (rev s)")
  case Nil
  then show ?thesis by (simp add: py_rstrip_def)
next
  case (Cons y ys)
  then have "\<not> isspace y"
    using hd_dropWhile [of isspace "rev s"] by simp
  then show ?thesis by (simp add: py_rstrip_def Cons)
qed

lemma text_loop_concat:
  "text_loop tr ls =
     tr @ concat (map (\<lambda>l. py_strip (re_sub_ws (line_text l)) @ [CHR 0x0A])
                    (filter (\<lambda>l. line_text l \<noteq> []) ls))"
  by (induction ls arbitrary: tr) simp_all

lemma whitespace_line_kept:
  assumes "t \<noteq> []" "\<And>c. c \<in> set t \<Longrightarrow> isspace c"
  shows "py_strip (re_sub_ws t) = []"
proof -
  have "re_sub_ws t = '' ''"
    using re_sub_ws_run [of t "[]"] assms by simp
  then show ?thesis
    by (simp add: py_strip_def py_lstrip_def py_rstrip_def isspace_def)
qed

lemma text_ws_last: "XMLObject_text ws_last = ''Jehovah What''"
  by code_simp

lemma text_note_only_first: "XMLObject_text note_only_first = ''Jehovah What''"
  by code_simp


text \<open>
  C7, as the claim states it, fails on its example: the line of two blanks has a
  non-empty text, so it is not skipped; it is cleaned to the empty string and appended with
  its newline. When it is the first line, the newline stays in front of the result.
\<close>

theorem whitespace_line_first_counterexample:
  "XMLObject_text ws_first = CHR 0x0A # ''Jehovah What''
   \<and> XMLObject_text ws_first \<noteq> ''Jehovah What''"
  by code_simp

text \<open>
  C7, amended. For every object the transcription is built from the lines whose
  concatenated text is not empty (the others add nothing, not even a separator): each such
  line is cleaned and appended with one newline, and trailing whitespace is stripped from
  the whole, so the result is empty or ends in a character that is not whitespace. Cleaning
  replaces every maximal run of whitespace by one space and leaves the other characters,
  then trims leading and trailing whitespace. A line whose text is not empty but all
  whitespace is kept and contributes an empty line. In particular a line holding only a
  note followed by the line \<open>Jehovah<space/>What\<close>, and that line followed by a line of
  blanks, both give exactly \<open>Jehovah What\<close>.
\<close>

theorem XMLObject_text_lines:
  "XMLObject_text xml =
     py_rstrip (concat (map (\<lambda>l. py_strip (re_sub_ws (line_text l)) @ [CHR 0x0A])
                          (filter (\<lambda>l. line_text l \<noteq> []) (xpath_lines xml))))
   \<and> (XMLObject_text xml = [] \<or> \<not> isspace (last (XMLObject_text xml)))
   \<and> (\<forall>run rest. run \<noteq> [] \<and> (\<forall>c\<in>set run. isspace c) \<and> (rest = [] \<or> \<not> isspace (hd rest))
          \<longrightarrow> re_sub_ws (run @ rest) = CHR '' '' # re_sub_ws rest)
   \<and> (\<forall>c rest. \<not> isspace c \<longrightarrow> re_sub_ws (c # rest) = c # re_sub_ws rest)
   \<and> re_sub_ws [] = []
   \<and> (\<forall>a core b. (\<forall>c\<in>set a. isspace c) \<and> (\<forall>c\<in>set b. isspace c)
          \<and> (core = [] \<or> (\<not> isspace (hd core) \<and> \<not> isspace (last core)))
          \<longrightarrow> py_strip (a @ core @ b) = core)
   \<and> (\<forall>core b. (\<forall>c\<in>set b. isspace c) \<and> (core = [] \<or> \<not> isspace (last core))
          \<longrightarrow> py_rstrip (core @ b) = core)
   \<and> (\<forall>t. t \<noteq> [] \<and> (\<forall>c\<in>set t. isspace c) \<longrightarrow> py_strip (re_sub_ws t) = [])
   \<and> XMLObject_text note_only_first = ''Jehovah What''
   \<and> XMLObject_text ws_last = ''Jehovah What''"
proof -
  have 1: "XMLObject_text xml =
     py_rstrip (concat (map (\<lambda>l. py_strip (re_sub_ws (line_text l)) @ [CHR 0x0A])
                          (filter (\<lambda>l. line_text l \<noteq> []) (xpath_lines xml))))"
    by (simp add: XMLObject_text_def text_loop_concat)
  have 2: "XMLObject_text xml = [] \<or> \<not> isspace (last (XMLObject_text xml))"
    unfolding XMLObject_text_def by (rule py_rstrip_no_trailing)
  have 3: "\<forall>run rest. run \<noteq> [] \<and> (\<forall>c\<in>set run. isspace c) \<and> (rest = [] \<or> \<not> isspace (hd rest))
          \<longrightarrow> re_sub_ws (run @ rest) = CHR '' '' # re_sub_ws rest"
    using re_sub_ws_run by blast
  have 4: "\<forall>c rest. \<not> isspace c \<longrightarrow> re_sub_ws (c # rest) = c # re_sub_ws rest"
    by simp
  have 5: "re_sub_ws [] = []"
    by simp
  have 6: "\<forall>a core b. (\<forall>c\<in>set a. isspace c) \<and> (\<forall>c\<in>set b. isspace c)
          \<and> (core = [] \<or> (\<not> isspace (hd core) \<and> \<not> isspace (last core)))
          \<longrightarrow> py_strip (a @ core @ b) = core"
    using py_strip_core by blast
  have 7: "\<forall>core b. (\<forall>c\<in>set b. isspace c) \<and> (core = [] \<or> \<not> isspace (last core))
          \<longrightarrow> py_rstrip (core @ b) = core"
    using py_rstrip_core by blast
  have 8: "\<forall>t. t \<noteq> [] \<and> (\<forall>c\<in>set t. isspace c) \<longrightarrow> py_strip (re_sub_ws t) = []"
    using whitespace_line_kept by blast
  show ?thesis
    using 1 2 3 4 5 6 7 8 text_note_only_first text_ws_last
    by (intro conjI)
qed

theorem XMLObject_text_lines_witness:
  "''  '' \<noteq> [] \<and> isspace (CHR '' '') \<and> \<not> isspace (CHR ''a'')
   \<and> re_sub_ws (''  '' @ ''a'') = CHR '' '' # re_sub_ws ''a''
   \<and> py_strip ('' '' @ ''a b'' @ ''  '') = ''a b''
   \<and> py_rstrip (''a b'' @ ''  '') = ''a b''
   \<and> py_strip (re_sub_ws ''  '') = []
   \<and> XMLObject_text ws_last =
       py_rstrip (concat (map (\<lambda>l. py_strip (re_sub_ws (line_text l)) @ [CHR 0x0A])
                          (filter (\<lambda>l. line_text l \<noteq> []) (xpath_lines ws_last))))
   \<and> XMLObject_text ws_last = ''Jehovah What''
   \<and> \<not> isspace (last (XMLObject_text ws_last))"
proof -
  note t = XMLObject_text_lines [of ws_last]
  have sp: "isspace (CHR '' '')" "\<not> isspace (CHR ''a'')" "\<not> isspace (CHR ''b'')"
    by (simp_all add: isspace_def)
  have a: "re_sub_ws (''  '' @ ''a'') = CHR '' '' # re_sub_ws ''a''"
    using t [THEN conjunct2, THEN conjunct2, THEN conjunct1, rule_format, of "''  ''" "''a''"] sp
    by simp
  have b: "py_strip ('' '' @ ''a b'' @ ''  '') = ''a b''"
    using t [THEN conjunct2, THEN conjunct2, THEN conjunct2, THEN conjunct2, THEN conjunct2,
             THEN conjunct1, rule_format, of "'' ''" "''  ''" "''a b''"] sp
    by simp
  have c: "py_rstrip (''a b'' @ ''  '') = ''a b''"
    using t [THEN conjunct2, THEN conjunct2, THEN conjunct2, THEN conjunct2, THEN conjunct2,
             THEN conjunct2, THEN conjunct1, rule_format, of "''  ''" "''a b''"] sp
    by simp
  have d: "py_strip (re_sub_ws ''  '') = []"
    using t [THEN conjunct2, THEN conjunct2, THEN conjunct2, THEN conjunct2, THEN conjunct2,
             THEN conjunct2, THEN conjunct2, THEN conjunct1, rule_format, of "''  ''"] sp
    by simp
  have e: "XMLObject_text ws_last = ''Jehovah What''"
    by (rule text_ws_last)
  have f: "\<not> isspace (last (XMLObject_text ws_last))"
    using t [THEN conjunct2, THEN conjunct1] by (simp add: e)
  show ?thesis
    using sp a b c d e f t [THEN conjunct1] by (intro conjI) simp_all
qed

text \<open>
  C8. The text that follows a note inside a line is lost with the note: the line
  \<open>foo<note>n</note>bar\<close> has the text \<open>foo\<close>, not \<open>foobar\<close>, because removing the note
  element removes its tail.
\<close>

theorem note_tail_lost:
  "line_text (Element ''l'' ''foo'' [Element ''note'' ''n'' [] ''bar''] []) = ''foo''
   \<and> XMLObject_text note_with_tail = ''foo''"
  by code_simp

end
